theory Spec2Isabelle
  imports Complex_Main
begin

section \<open>Numbers and DOM records\<close>

text \<open>
  A JavaScript number is modelled as a real, as \<open>NaN\<close> or as an infinity: rounding and
  signed zeros of IEEE doubles are outside the model. The coordinates of a DOM \<open>Touch\<close>
  and the \<open>deltaY\<close> of a wheel event are finite, so they are reals. A field that the
  source never assigns reads as \<open>undefined\<close>, which is \<open>None\<close> here.
\<close>

datatype number = Num real | NaN | PosInfinity | NegInfinity

text \<open>\<open>ToNumber\<close>: what arithmetic makes of a field that may be \<open>undefined\<close>.\<close>

definition ToNumber :: "real option \<Rightarrow> number" where
  "ToNumber v = (case v of None \<Rightarrow> NaN | Some x \<Rightarrow> Num x)"

text \<open>The binary \<open>-\<close> of JavaScript.\<close>

fun js_minus :: "number \<Rightarrow> number \<Rightarrow> number" where
  "js_minus (Num a) (Num b) = Num (a - b)"
| "js_minus NaN y = NaN"
| "js_minus x NaN = NaN"
| "js_minus PosInfinity PosInfinity = NaN"
| "js_minus NegInfinity NegInfinity = NaN"
| "js_minus PosInfinity y = PosInfinity"
| "js_minus NegInfinity y = NegInfinity"
| "js_minus (Num a) PosInfinity = NegInfinity"
| "js_minus (Num a) NegInfinity = PosInfinity"

text \<open>
  The binary \<open>/\<close> of JavaScript on a finite numerator and a finite, non-negative
  denominator (an element's \<open>offsetHeight\<close>): division by zero does not raise.
\<close>

definition js_divide :: "real \<Rightarrow> real \<Rightarrow> number" where
  "js_divide a b =
     (if b = 0 then (if a = 0 then NaN else if 0 < a then PosInfinity else NegInfinity)
      else Num (a / b))"

record Touch =
  touch_identifier :: int
  clientX :: real
  clientY :: real
  pageX :: real
  pageY :: real
  screenX :: real
  screenY :: real
  target :: nat

datatype EventType = touchstart | touchmove | touchend | touchcancel

record TouchEvent =
  etype :: EventType
  touches :: "Touch list"
  targetTouches :: "Touch list"

section \<open>TouchMove and IPinch\<close>

text \<open>
  Class \<open>TouchMove\<close>: the constructor sets both movements to 0 and copies the other
  fields from the touch, when there is one. Without a touch they stay unassigned.
\<close>

record TouchMove =
  movementX :: number
  movementY :: number
  tm_identifier :: "int option"
  tm_clientX :: "real option"
  tm_clientY :: "real option"
  tm_pageX :: "real option"
  tm_pageY :: "real option"
  tm_screenX :: "real option"
  tm_screenY :: "real option"
  tm_target :: "nat option"

definition new_TouchMove :: "Touch option \<Rightarrow> TouchMove" where
  "new_TouchMove touch =
     (case touch of
        None \<Rightarrow>
          \<lparr>movementX = Num 0, movementY = Num 0, tm_identifier = None,
           tm_clientX = None, tm_clientY = None, tm_pageX = None, tm_pageY = None,
           tm_screenX = None, tm_screenY = None, tm_target = None\<rparr>
      | Some t \<Rightarrow>
          \<lparr>movementX = Num 0, movementY = Num 0, tm_identifier = Some (touch_identifier t),
           tm_clientX = Some (clientX t), tm_clientY = Some (clientY t),
           tm_pageX = Some (pageX t), tm_pageY = Some (pageY t),
           tm_screenX = Some (screenX t), tm_screenY = Some (screenY t),
           tm_target = Some (target t)\<rparr>)"

record IPinch =
  p_changeX :: real
  p_changeY :: real
  p_clientX :: real
  p_clientY :: real
  p_distance :: real
  p_distanceChange :: real
  p_distanceX :: real
  p_distanceY :: real
  p_originalEvent :: "TouchEvent option"
  p_pageX :: real
  p_pageY :: real
  p_screenX :: real
  p_screenY :: real
  p_touch1 :: "Touch option"
  p_touch2 :: "Touch option"

text \<open>The seed of the pinch scan (TouchService.ts, lines 293-309).\<close>

definition pinchSeed :: IPinch where
  "pinchSeed =
     \<lparr>p_changeX = 0, p_changeY = 0, p_clientX = 0, p_clientY = 0, p_distance = 0,
      p_distanceChange = 0, p_distanceX = 0, p_distanceY = 0, p_originalEvent = None,
      p_pageX = 0, p_pageY = 0, p_screenX = 0, p_screenY = 0,
      p_touch1 = None, p_touch2 = None\<rparr>"

section \<open>The operations mapped from touchmove events\<close>

text \<open>The filter of lines 186-190 and 211-214: one active and one target-scoped contact.\<close>

definition isSingle :: "TouchEvent \<Rightarrow> bool" where
  "isSingle te \<longleftrightarrow> length (touches te) = 1 \<and> length (targetTouches te) = 1"

text \<open>The filter of lines 274-278 and 311-315: two of each.\<close>

definition isPair :: "TouchEvent \<Rightarrow> bool" where
  "isPair te \<longleftrightarrow> length (touches te) = 2 \<and> length (targetTouches te) = 2"

text \<open>
  Lines 192-203. The operation reads \<open>te.touches[0]\<close>; the filter before the map
  lets only events with one touch through, so the index is in range wherever the
  operation is built.
\<close>

definition singleTouchMoveOperation :: "TouchEvent \<Rightarrow> TouchMove \<Rightarrow> TouchMove" where
  "singleTouchMoveOperation te previous =
     (let touch = touches te ! 0;
          current = new_TouchMove (Some touch)
      in current
           \<lparr>movementX := js_minus (Num (pageX touch)) (ToNumber (tm_pageX previous)),
            movementY := js_minus (Num (pageY touch)) (ToNumber (tm_pageY previous))\<rparr>)"

text \<open>Lines 317-366. The filter before the map lets only events with two touches through.\<close>

definition pinchOperation :: "TouchEvent \<Rightarrow> IPinch \<Rightarrow> IPinch" where
  "pinchOperation te previous =
     (let touch1 = touches te ! 0;
          touch2 = touches te ! 1;
          minX = min (clientX touch1) (clientX touch2);
          maxX = max (clientX touch1) (clientX touch2);
          minY = min (clientY touch1) (clientY touch2);
          maxY = max (clientY touch1) (clientY touch2);
          centerClientX = minX + (maxX - minX) / 2;
          centerClientY = minY + (maxY - minY) / 2;
          centerPageX = centerClientX + pageX touch1 - clientX touch1;
          centerPageY = centerClientY + pageY touch1 - clientY touch1;
          centerScreenX = centerClientX + screenX touch1 - clientX touch1;
          centerScreenY = centerClientY + screenY touch1 - clientY touch1;
          distanceX = \<bar>clientX touch1 - clientX touch2\<bar>;
          distanceY = \<bar>clientY touch1 - clientY touch2\<bar>;
          distance = sqrt (distanceX * distanceX + distanceY * distanceY);
          distanceChange = distance - p_distance previous;
          changeX = distanceX - p_distanceX previous;
          changeY = distanceY - p_distanceY previous
      in \<lparr>p_changeX = changeX, p_changeY = changeY,
          p_clientX = centerClientX, p_clientY = centerClientY,
          p_distance = distance, p_distanceChange = distanceChange,
          p_distanceX = distanceX, p_distanceY = distanceY,
          p_originalEvent = Some te,
          p_pageX = centerPageX, p_pageY = centerPageY,
          p_screenX = centerScreenX, p_screenY = centerScreenY,
          p_touch1 = Some touch1, p_touch2 = Some touch2\<rparr>)"

section \<open>Observables\<close>

text \<open>
  The element's history is the list of touch events dispatched to it; the \<open>n\<close>-th
  event is dispatched at time \<open>n\<close> (from 1), and time 0 is the construction of the
  service. An observable is read through its subscriptions: given the time at which an
  observer subscribes, it yields the notifications the observer receives, each with the
  time of the event whose dispatch produced it.

  A listener added to the element while an event is being dispatched is not run for that
  event, so a subscription made at time \<open>s\<close> sees the events after \<open>s\<close> only. This is
  \<open>Observable.fromEvent\<close> (lines 172-175).
\<close>

type_synonym 'a Observable = "nat \<Rightarrow> (nat \<times> 'a) list"

definition fromEvent :: "TouchEvent list \<Rightarrow> EventType \<Rightarrow> TouchEvent Observable" where
  "fromEvent element name =
     (\<lambda>s. filter (\<lambda>(t, te). s < t \<and> etype te = name) (enumerate 1 element))"

definition filter_obs :: "('a \<Rightarrow> bool) \<Rightarrow> 'a Observable \<Rightarrow> 'a Observable" where
  "filter_obs P source = (\<lambda>s. filter (\<lambda>(t, x). P x) (source s))"

definition map_obs :: "('a \<Rightarrow> 'b) \<Rightarrow> 'a Observable \<Rightarrow> 'b Observable" where
  "map_obs f source = (\<lambda>s. map (\<lambda>(t, x). (t, f x)) (source s))"

text \<open>
  \<open>Observable.merge\<close>: every source is subscribed, in order; the notifications come in
  the order of their times, those of an earlier source first at equal times.
\<close>

definition merge_obs :: "'a Observable list \<Rightarrow> 'a Observable" where
  "merge_obs sources = (\<lambda>s. sort_key fst (concat (map (\<lambda>source. source s) sources)))"

text \<open>
  \<open>scan\<close> with a seed: every subscription folds from the seed, and the seed itself is
  not emitted.
\<close>

fun scan_from :: "('b \<Rightarrow> 'a \<Rightarrow> 'b) \<Rightarrow> 'b \<Rightarrow> (nat \<times> 'a) list \<Rightarrow> (nat \<times> 'b) list" where
  "scan_from f acc [] = []"
| "scan_from f acc ((t, x) # xs) = (t, f acc x) # scan_from f (f acc x) xs"

definition scan :: "('b \<Rightarrow> 'a \<Rightarrow> 'b) \<Rightarrow> 'b \<Rightarrow> 'a Observable \<Rightarrow> 'b Observable" where
  "scan f seed source = (\<lambda>s. scan_from f seed (source s))"

definition skip :: "nat \<Rightarrow> 'a Observable \<Rightarrow> 'a Observable" where
  "skip n source = (\<lambda>s. drop n (source s))"

definition take_obs :: "nat \<Rightarrow> 'a Observable \<Rightarrow> 'a Observable" where
  "take_obs n source = (\<lambda>s. take n (source s))"

text \<open>
  \<open>first\<close> on a source that never completes (the sources here are DOM event streams):
  the first notification, then completion.
\<close>

definition first :: "'a Observable \<Rightarrow> 'a Observable" where
  "first source = take_obs 1 source"

text \<open>
  \<open>takeUntil\<close>: the notifier is subscribed together with the source (and before it);
  a notification of the source is delivered as long as the notifier has not emitted.
\<close>

definition takeUntil :: "'a Observable \<Rightarrow> 'b Observable \<Rightarrow> 'a Observable" where
  "takeUntil source notifier =
     (\<lambda>s. filter (\<lambda>(u, x). \<not> list_ex (\<lambda>(tn, y). tn \<le> u) (notifier s)) (source s))"

text \<open>
  \<open>mergeMap\<close>: every notification of the outer observable subscribes an inner
  observable at that time; all inner subscriptions stay alive.
\<close>

definition mergeMap :: "('a \<Rightarrow> 'b Observable) \<Rightarrow> 'a Observable \<Rightarrow> 'b Observable" where
  "mergeMap project outer =
     (\<lambda>s. sort_key fst (concat (map (\<lambda>(t, x). project x t) (outer s))))"

text \<open>
  \<open>switchMap\<close>: as \<open>mergeMap\<close>, but a notification of the outer observable first
  unsubscribes the inner subscription before it: an inner subscription made at \<open>t\<close>
  delivers at \<open>u\<close> when the outer observable has not emitted after \<open>t\<close> up to \<open>u\<close>.
\<close>

definition switchMap :: "('a \<Rightarrow> 'b Observable) \<Rightarrow> 'a Observable \<Rightarrow> 'b Observable" where
  "switchMap project outer =
     (\<lambda>s. concat (map (\<lambda>(t, x).
              filter (\<lambda>(u, y). \<not> list_ex (\<lambda>(t', x'). t < t' \<and> t' \<le> u) (outer s))
                (project x t))
            (outer s)))"

text \<open>
  A \<open>Subject\<close> that the constructor subscribes to a source (time 0): an observer of
  the subject receives what the source emits after the observer subscribed.
\<close>

definition Subject :: "'a Observable \<Rightarrow> 'a Observable" where
  "Subject source = (\<lambda>s. filter (\<lambda>(t, x). s < t) (source 0))"

section \<open>TouchService\<close>

definition touchStart :: "TouchEvent list \<Rightarrow> TouchEvent Observable" where
  "touchStart element = fromEvent element touchstart"

definition touchMove :: "TouchEvent list \<Rightarrow> TouchEvent Observable" where
  "touchMove element = fromEvent element touchmove"

definition touchEnd :: "TouchEvent list \<Rightarrow> TouchEvent Observable" where
  "touchEnd element = fromEvent element touchend"

definition touchCancel :: "TouchEvent list \<Rightarrow> TouchEvent Observable" where
  "touchCancel element = fromEvent element touchcancel"

text \<open>Lines 177 and 186-204.\<close>

definition singleTouchMoveOperations :: "TouchEvent list \<Rightarrow> (TouchMove \<Rightarrow> TouchMove) Observable" where
  "singleTouchMoveOperations element =
     Subject (map_obs singleTouchMoveOperation (filter_obs isSingle (touchMove element)))"

text \<open>Lines 179-184: \<open>_singleTouchMove$\<close>.\<close>

definition singleTouchMove_scan :: "TouchEvent list \<Rightarrow> TouchMove Observable" where
  "singleTouchMove_scan element =
     scan (\<lambda>touch operation. operation touch) (new_TouchMove None)
       (singleTouchMoveOperations element)"

text \<open>Lines 206-233.\<close>

definition singleTouchStart :: "TouchEvent list \<Rightarrow> TouchEvent Observable" where
  "singleTouchStart element =
     filter_obs isSingle
       (merge_obs [touchStart element, touchEnd element, touchCancel element])"

definition multipleTouchStart :: "TouchEvent list \<Rightarrow> TouchEvent Observable" where
  "multipleTouchStart element =
     filter_obs (\<lambda>te. length (touches te) \<ge> 1)
       (merge_obs [touchStart element, touchEnd element, touchCancel element])"

definition touchStop :: "TouchEvent list \<Rightarrow> TouchEvent Observable" where
  "touchStop element =
     filter_obs (\<lambda>te. length (touches te) = 0)
       (merge_obs [touchEnd element, touchCancel element])"

text \<open>Lines 235-244: \<open>_singleTouchMoveStart$\<close>, read through \<open>singleTouchMoveStart$\<close>.\<close>

definition singleTouchMoveStart :: "TouchEvent list \<Rightarrow> TouchMove Observable" where
  "singleTouchMoveStart element =
     mergeMap
       (\<lambda>e. take_obs 1
              (takeUntil (singleTouchMove_scan element)
                 (merge_obs [touchStop element, multipleTouchStart element])))
       (singleTouchStart element)"

text \<open>Lines 246-254: \<open>_singleTouchMoveEnd$\<close>.\<close>

definition singleTouchMoveEnd :: "TouchEvent list \<Rightarrow> TouchEvent Observable" where
  "singleTouchMoveEnd element =
     mergeMap
       (\<lambda>e. first (merge_obs [touchStop element, multipleTouchStart element]))
       (singleTouchStart element)"

text \<open>Lines 256-266: \<open>_singleTouch$\<close>, read through \<open>singleTouchMove$\<close>.\<close>

definition singleTouch :: "TouchEvent list \<Rightarrow> TouchMove Observable" where
  "singleTouch element =
     switchMap
       (\<lambda>te. takeUntil (skip 1 (singleTouchMove_scan element))
               (merge_obs [multipleTouchStart element, touchStop element]))
       (singleTouchStart element)"

text \<open>Lines 268-284.\<close>

definition touchesChanged :: "TouchEvent list \<Rightarrow> TouchEvent Observable" where
  "touchesChanged element =
     merge_obs [touchStart element, touchEnd element, touchCancel element]"

definition pinchStart :: "TouchEvent list \<Rightarrow> TouchEvent Observable" where
  "pinchStart element = filter_obs isPair (touchesChanged element)"

definition pinchEnd :: "TouchEvent list \<Rightarrow> TouchEvent Observable" where
  "pinchEnd element =
     filter_obs (\<lambda>te. length (touches te) \<noteq> 2 \<or> length (targetTouches te) \<noteq> 2)
       (touchesChanged element)"

text \<open>Lines 286 and 311-368.\<close>

definition pinchOperations :: "TouchEvent list \<Rightarrow> (IPinch \<Rightarrow> IPinch) Observable" where
  "pinchOperations element =
     Subject (map_obs pinchOperation (filter_obs isPair (touchMove element)))"

text \<open>Lines 288-309: \<open>_pinch$\<close>.\<close>

definition pinch_scan :: "TouchEvent list \<Rightarrow> IPinch Observable" where
  "pinch_scan element =
     scan (\<lambda>pinch operation. operation pinch) pinchSeed (pinchOperations element)"

text \<open>Lines 370-376: \<open>_pinchChange$\<close>, read through \<open>pinch$\<close>.\<close>

definition pinchChange :: "TouchEvent list \<Rightarrow> IPinch Observable" where
  "pinchChange element =
     switchMap (\<lambda>te. takeUntil (skip 1 (pinch_scan element)) (pinchEnd element))
       (pinchStart element)"

section \<open>The activation flag\<close>












section \<open>ScrollZoomHandler\<close>

text \<open>
  The fields of a wheel event that the handler reads. \<open>deltaMode\<close> is 0 for pixels, 1 for
  lines and 2 for pages (the constants \<open>DOM_DELTA_PIXEL\<close>, \<open>DOM_DELTA_LINE\<close> and
  \<open>DOM_DELTA_PAGE\<close> of the DOM).
\<close>

record WheelEvent =
  deltaY :: real
  deltaMode :: nat
  wheel_clientX :: real
  wheel_clientY :: real

definition DOM_DELTA_PIXEL :: nat where "DOM_DELTA_PIXEL = 0"
definition DOM_DELTA_LINE :: nat where "DOM_DELTA_LINE = 1"
definition DOM_DELTA_PAGE :: nat where "DOM_DELTA_PAGE = 2"

record HTMLElement =
  offsetWidth :: int
  offsetHeight :: int

text \<open>The state that the filter of lines 32-36 reads.\<close>

record ICurrentState =
  fullPano :: bool
  nodesAhead :: int

text \<open>Lines 70-75.\<close>

definition normalizedDeltaY :: "WheelEvent \<Rightarrow> real" where
  "normalizedDeltaY event =
     (if deltaMode event = 1 then 40 * deltaY event
      else if deltaMode event = 2 then 800 * deltaY event
      else deltaY event)"

text \<open>
  Lines 48-80, the observer of the zoom subscription: the arguments of the call of
  \<open>stateService.zoomIn\<close>. The viewport coordinates and the transform are not part of the
  sources; \<open>canvasPosition\<close>, \<open>unprojectFromCanvas\<close> and \<open>projectBasic\<close> are parameters.
\<close>

definition zoomIn_arguments ::
  "(WheelEvent \<Rightarrow> HTMLElement \<Rightarrow> real \<times> real) \<Rightarrow>
   (real \<Rightarrow> real \<Rightarrow> int \<Rightarrow> int \<Rightarrow> 'perspective \<Rightarrow> 'vector) \<Rightarrow>
   ('transform \<Rightarrow> 'vector \<Rightarrow> real list) \<Rightarrow>
   WheelEvent \<Rightarrow> 'perspective \<Rightarrow> 'transform \<Rightarrow> HTMLElement \<Rightarrow> number \<times> real list" where
  "zoomIn_arguments canvasPosition unprojectFromCanvas projectBasic event perspective
       transform element =
     (let canvasWidth = offsetWidth element;
          canvasHeight = offsetHeight element;
          (canvasX, canvasY) = canvasPosition event element;
          unprojected = unprojectFromCanvas canvasX canvasY canvasWidth canvasHeight perspective;
          reference = projectBasic transform unprojected;
          deltaY = normalizedDeltaY event;
          zoom = js_divide (- 3 * deltaY) (real_of_int canvasHeight)
      in (zoom, reference))"

text \<open>
  Lines 25-47: a wheel event that the mouse service lets through reaches the observer when
  the current node is a full panorama or no node is ahead.
\<close>

definition scrollZoom ::
  "(WheelEvent \<Rightarrow> HTMLElement \<Rightarrow> real \<times> real) \<Rightarrow>
   (real \<Rightarrow> real \<Rightarrow> int \<Rightarrow> int \<Rightarrow> 'perspective \<Rightarrow> 'vector) \<Rightarrow>
   ('transform \<Rightarrow> 'vector \<Rightarrow> real list) \<Rightarrow>
   WheelEvent \<Rightarrow> ICurrentState \<Rightarrow> 'perspective \<Rightarrow> 'transform \<Rightarrow> HTMLElement \<Rightarrow>
   (number \<times> real list) option" where
  "scrollZoom canvasPosition unprojectFromCanvas projectBasic event state perspective
       transform element =
     (if fullPano state \<or> nodesAhead state < 1
      then Some (zoomIn_arguments canvasPosition unprojectFromCanvas projectBasic event
                   perspective transform element)
      else None)"

section \<open>Example touches and events\<close>

text \<open>A touch whose client, page and screen positions coincide.\<close>

definition touchAt :: "real \<Rightarrow> real \<Rightarrow> Touch" where
  "touchAt x y =
     \<lparr>touch_identifier = 0, clientX = x, clientY = y, pageX = x, pageY = y,
      screenX = x, screenY = y, target = 0\<rparr>"

text \<open>An event all of whose touches are on the event's target.\<close>

definition touchEvent :: "EventType \<Rightarrow> Touch list \<Rightarrow> TouchEvent" where
  "touchEvent name ts = \<lparr>etype = name, touches = ts, targetTouches = ts\<rparr>"

text \<open>Two fingers go down at (0,0) and (10,0) and move twice without changing place.\<close>

definition pinchHistory :: "TouchEvent list" where
  "pinchHistory =
     [touchEvent touchstart [touchAt 0 0, touchAt 10 0],
      touchEvent touchmove [touchAt 0 0, touchAt 10 0],
      touchEvent touchmove [touchAt 0 0, touchAt 10 0]]"

text \<open>As before, but the second finger is at (20,0) in the second move.\<close>

definition spreadHistory :: "TouchEvent list" where
  "spreadHistory =
     [touchEvent touchstart [touchAt 0 0, touchAt 10 0],
      touchEvent touchmove [touchAt 0 0, touchAt 10 0],
      touchEvent touchmove [touchAt 0 0, touchAt 20 0]]"

text \<open>One finger goes down at (100,100), is reported there once more, then at (105,98).\<close>

definition dragHistory :: "TouchEvent list" where
  "dragHistory =
     [touchEvent touchstart [touchAt 100 100],
      touchEvent touchmove [touchAt 100 100],
      touchEvent touchmove [touchAt 105 98]]"

text \<open>One finger goes down at (100,100) and the first move reports it at (105,98).\<close>

definition shortDragHistory :: "TouchEvent list" where
  "shortDragHistory =
     [touchEvent touchstart [touchAt 100 100],
      touchEvent touchmove [touchAt 105 98]]"

text \<open>
  A finger goes down on one target and a second finger on another: the second touchstart
  has two touches, one of them on its target.
\<close>

definition splitTargetHistory :: "TouchEvent list" where
  "splitTargetHistory =
     [touchEvent touchstart [touchAt 0 0],
      \<lparr>etype = touchstart,
       touches = [touchAt 0 0, (touchAt 10 0)\<lparr>target := 1\<rparr>],
       targetTouches = [(touchAt 10 0)\<lparr>target := 1\<rparr>]\<rparr>]"

text \<open>A finger goes down, moves, and a second finger goes down on the same target.\<close>

definition secondFingerHistory :: "TouchEvent list" where
  "secondFingerHistory =
     [touchEvent touchstart [touchAt 0 0],
      touchEvent touchmove [touchAt 1 1],
      touchEvent touchstart [touchAt 1 1, touchAt 10 0]]"

text \<open>A wheel event of three lines, and an element 600 pixels high.\<close>

definition threeLines :: WheelEvent where
  "threeLines = \<lparr>deltaY = 3, deltaMode = DOM_DELTA_LINE, wheel_clientX = 0, wheel_clientY = 0\<rparr>"

definition canvas600 :: HTMLElement where
  "canvas600 = \<lparr>offsetWidth = 800, offsetHeight = 600\<rparr>"

section \<open>Notifications of the operators\<close>

lemma in_fromEvent:
  "(t, te) \<in> set (fromEvent element name s) \<longleftrightarrow>
     s < t \<and> 0 < t \<and> t \<le> length element \<and> te = element ! (t - 1) \<and> etype te = name"
  by (auto simp: fromEvent_def in_set_enumerate_eq)

lemma in_filter_obs:
  "(t, x) \<in> set (filter_obs P source s) \<longleftrightarrow> (t, x) \<in> set (source s) \<and> P x"
  by (auto simp: filter_obs_def)

lemma in_map_obs:
  "(t, y) \<in> set (map_obs f source s) \<longleftrightarrow> (\<exists>x. (t, x) \<in> set (source s) \<and> y = f x)"
  by (force simp: map_obs_def)

lemma in_merge_obs:
  "(t, x) \<in> set (merge_obs sources s) \<longleftrightarrow> (\<exists>source \<in> set sources. (t, x) \<in> set (source s))"
  by (auto simp: merge_obs_def)

lemma in_Subject:
  "(t, x) \<in> set (Subject source s) \<longleftrightarrow> (t, x) \<in> set (source 0) \<and> s < t"
  by (auto simp: Subject_def)

lemma in_scan_from:
  "(t, v) \<in> set (scan_from f acc xs) \<Longrightarrow> \<exists>x a. (t, x) \<in> set xs \<and> v = f a x"
  by (induction f acc xs rule: scan_from.induct) auto

lemma map_fst_scan_from: "map fst (scan_from f acc xs) = map fst xs"
  by (induction f acc xs rule: scan_from.induct) auto

lemma in_scan:
  "(t, v) \<in> set (scan f seed source s) \<Longrightarrow> \<exists>x a. (t, x) \<in> set (source s) \<and> v = f a x"
  unfolding scan_def by (rule in_scan_from)

lemma in_skip: "(t, x) \<in> set (skip n source s) \<Longrightarrow> (t, x) \<in> set (source s)"
  by (auto simp: skip_def dest: in_set_dropD)

lemma in_take_obs: "(t, x) \<in> set (take_obs n source s) \<Longrightarrow> (t, x) \<in> set (source s)"
  by (auto simp: take_obs_def dest: in_set_takeD)

lemma in_takeUntil:
  "(u, x) \<in> set (takeUntil source notifier s) \<longleftrightarrow>
     (u, x) \<in> set (source s) \<and> (\<forall>(tn, y) \<in> set (notifier s). u < tn)"
  by (auto simp: takeUntil_def list_ex_iff)

lemma in_mergeMap:
  "(u, y) \<in> set (mergeMap project outer s) \<longleftrightarrow>
     (\<exists>(t, x) \<in> set (outer s). (u, y) \<in> set (project x t))"
  by (auto simp: mergeMap_def)

lemma in_switchMap:
  "(u, y) \<in> set (switchMap project outer s) \<longleftrightarrow>
     (\<exists>(t, x) \<in> set (outer s). (u, y) \<in> set (project x t) \<and>
         (\<forall>(t', x') \<in> set (outer s). \<not> (t < t' \<and> t' \<le> u)))"
  unfolding switchMap_def list_ex_iff by (simp add: case_prod_unfold)

subsection \<open>Where the tracked values come from\<close>

lemma in_pinchOperations:
  "(t, operation) \<in> set (pinchOperations element s) \<longleftrightarrow>
     s < t \<and> 0 < t \<and> t \<le> length element \<and> etype (element ! (t - 1)) = touchmove \<and>
     isPair (element ! (t - 1)) \<and> operation = pinchOperation (element ! (t - 1))"
  by (auto simp: pinchOperations_def in_Subject in_map_obs in_filter_obs touchMove_def in_fromEvent)

lemma in_pinch_scan:
  assumes "(t, p) \<in> set (pinch_scan element s)"
  shows "s < t \<and> 0 < t \<and> t \<le> length element \<and> etype (element ! (t - 1)) = touchmove \<and>
     isPair (element ! (t - 1)) \<and> (\<exists>previous. p = pinchOperation (element ! (t - 1)) previous)"
  using in_scan[OF assms[unfolded pinch_scan_def]] by (auto simp: in_pinchOperations)

lemma in_pinchChange:
  assumes "(t, p) \<in> set (pinchChange element s)"
  shows "0 < t \<and> t \<le> length element \<and> etype (element ! (t - 1)) = touchmove \<and>
     isPair (element ! (t - 1)) \<and> (\<exists>previous. p = pinchOperation (element ! (t - 1)) previous)"
proof -
  from assms obtain t0 where "(t, p) \<in> set (pinch_scan element t0)"
    by (auto simp: pinchChange_def in_switchMap in_takeUntil dest: in_skip)
  from in_pinch_scan[OF this] show ?thesis by simp
qed

lemma in_singleTouchMoveOperations:
  "(t, operation) \<in> set (singleTouchMoveOperations element s) \<longleftrightarrow>
     s < t \<and> 0 < t \<and> t \<le> length element \<and> etype (element ! (t - 1)) = touchmove \<and>
     isSingle (element ! (t - 1)) \<and> operation = singleTouchMoveOperation (element ! (t - 1))"
  by (auto simp: singleTouchMoveOperations_def in_Subject in_map_obs in_filter_obs touchMove_def
      in_fromEvent)

lemma in_singleTouchMove_scan:
  assumes "(t, m) \<in> set (singleTouchMove_scan element s)"
  shows "s < t \<and> 0 < t \<and> t \<le> length element \<and> etype (element ! (t - 1)) = touchmove \<and>
     isSingle (element ! (t - 1)) \<and>
     (\<exists>previous. m = singleTouchMoveOperation (element ! (t - 1)) previous)"
  using in_scan[OF assms[unfolded singleTouchMove_scan_def]]
  by (auto simp: in_singleTouchMoveOperations)

lemma in_singleTouch:
  assumes "(t, m) \<in> set (singleTouch element s)"
  shows "0 < t \<and> t \<le> length element \<and> etype (element ! (t - 1)) = touchmove \<and>
     isSingle (element ! (t - 1)) \<and>
     (\<exists>previous. m = singleTouchMoveOperation (element ! (t - 1)) previous)"
proof -
  from assms obtain t0 where "(t, m) \<in> set (singleTouchMove_scan element t0)"
    by (auto simp: singleTouch_def in_switchMap in_takeUntil dest: in_skip)
  from in_singleTouchMove_scan[OF this] show ?thesis by simp
qed

subsection \<open>The fold of a scan\<close>

lemma length_scan_from: "length (scan_from f acc xs) = length xs"
  by (induction f acc xs rule: scan_from.induct) auto

lemma scan_from_nth_0:
  "xs \<noteq> [] \<Longrightarrow> scan_from f acc xs ! 0 = (fst (xs ! 0), f acc (snd (xs ! 0)))"
  by (cases xs) auto

lemma scan_from_nth_Suc:
  "Suc i < length xs \<Longrightarrow>
   scan_from f acc xs ! Suc i =
     (fst (xs ! Suc i), f (snd (scan_from f acc xs ! i)) (snd (xs ! Suc i)))"
proof (induction xs arbitrary: acc i)
  case Nil
  then show ?case by simp
next
  case (Cons x xs)
  obtain t v where x: "x = (t, v)" by (cases x)
  show ?case
  proof (cases i)
    case 0
    with Cons.prems have "xs \<noteq> []" by auto
    with 0 x show ?thesis by (simp add: scan_from_nth_0)
  next
    case (Suc j)
    with Cons.prems have "Suc j < length xs" by simp
    from Cons.IH[OF this] Suc x show ?thesis by simp
  qed
qed

lemma scan_nth:
  assumes "i < length (scan f seed source s)"
  shows "scan f seed source s ! i =
     (fst (source s ! i),
      f (if i = 0 then seed else snd (scan f seed source s ! (i - 1))) (snd (source s ! i)))"
proof (cases i)
  case 0
  with assms show ?thesis
    by (auto simp: scan_def length_scan_from scan_from_nth_0)
next
  case (Suc j)
  with assms show ?thesis
    by (simp add: scan_def length_scan_from scan_from_nth_Suc)
qed

lemma pinch_scan_nth:
  assumes "i < length (pinch_scan element s)"
  shows "snd (pinch_scan element s ! i) =
     pinchOperation (element ! (fst (pinch_scan element s ! i) - 1))
       (if i = 0 then pinchSeed else snd (pinch_scan element s ! (i - 1)))"
proof -
  let ?ops = "pinchOperations element s"
  from assms have i: "i < length ?ops"
    by (simp add: pinch_scan_def scan_def length_scan_from)
  then have "?ops ! i \<in> set ?ops" by simp
  then have "(fst (?ops ! i), snd (?ops ! i)) \<in> set ?ops" by simp
  then have op: "snd (?ops ! i) = pinchOperation (element ! (fst (?ops ! i) - 1))"
    unfolding in_pinchOperations by blast
  from scan_nth[OF assms[unfolded pinch_scan_def]] op show ?thesis
    by (simp add: pinch_scan_def)
qed

lemma singleTouchMove_scan_nth:
  assumes "i < length (singleTouchMove_scan element s)"
  shows "snd (singleTouchMove_scan element s ! i) =
     singleTouchMoveOperation (element ! (fst (singleTouchMove_scan element s ! i) - 1))
       (if i = 0 then new_TouchMove None else snd (singleTouchMove_scan element s ! (i - 1)))"
proof -
  let ?ops = "singleTouchMoveOperations element s"
  from assms have i: "i < length ?ops"
    by (simp add: singleTouchMove_scan_def scan_def length_scan_from)
  then have "?ops ! i \<in> set ?ops" by simp
  then have "(fst (?ops ! i), snd (?ops ! i)) \<in> set ?ops" by simp
  then have op: "snd (?ops ! i) = singleTouchMoveOperation (element ! (fst (?ops ! i) - 1))"
    unfolding in_singleTouchMoveOperations by blast
  from scan_nth[OF assms[unfolded singleTouchMove_scan_def]] op show ?thesis
    by (simp add: singleTouchMove_scan_def)
qed

subsection \<open>Notifications come in the order of the events\<close>

lemma increasing_fromEvent:
  "sorted_wrt (\<lambda>x y. fst x < fst y) (fromEvent element name s)"
proof -
  have "sorted_wrt (<) (map fst (enumerate 1 element))"
    by (simp only: map_fst_enumerate sorted_wrt_upt)
  then have "sorted_wrt (\<lambda>x y. fst x < fst y) (enumerate 1 element)"
    by (simp only: sorted_wrt_map)
  then show ?thesis
    unfolding fromEvent_def by (rule sorted_wrt_filter)
qed

lemma increasing_filter_obs:
  "sorted_wrt (\<lambda>x y. fst x < fst y) (source s) \<Longrightarrow>
   sorted_wrt (\<lambda>x y. fst x < fst y) (filter_obs P source s)"
  unfolding filter_obs_def by (rule sorted_wrt_filter)

lemma increasing_map_obs:
  "sorted_wrt (\<lambda>x y. fst x < fst y) (source s) \<Longrightarrow>
   sorted_wrt (\<lambda>x y. fst x < fst y) (map_obs f source s)"
  by (simp add: map_obs_def sorted_wrt_map case_prod_unfold)

lemma increasing_Subject:
  "sorted_wrt (\<lambda>x y. fst x < fst y) (source 0) \<Longrightarrow>
   sorted_wrt (\<lambda>x y. fst x < fst y) (Subject source s)"
  unfolding Subject_def by (rule sorted_wrt_filter)

lemma increasing_scan_from:
  fixes xs :: "(nat \<times> 'a) list"
  shows "sorted_wrt (\<lambda>x y. fst x < fst y) xs \<Longrightarrow>
   sorted_wrt (\<lambda>x y. fst x < fst y) (scan_from f acc xs)"
proof -
  assume "sorted_wrt (\<lambda>x y. fst x < fst y) xs"
  then have "sorted_wrt (<) (map fst xs)"
    by (simp add: sorted_wrt_map)
  then have "sorted_wrt (<) (map fst (scan_from f acc xs))"
    by (simp add: map_fst_scan_from)
  then show ?thesis
    by (simp add: sorted_wrt_map)
qed

lemma times_scan_from: "fst ` set (scan_from f acc xs) = fst ` set xs"
proof -
  have "set (map fst (scan_from f acc xs)) = set (map fst xs)"
    by (simp only: map_fst_scan_from)
  then show ?thesis
    by (simp only: set_map)
qed

lemma head_is_earliest:
  fixes xs :: "(nat \<times> 'a) list"
  assumes "sorted_wrt (\<lambda>x y. fst x < fst y) xs" and "xs = (t1, m) # rest"
    and "(u, y) \<in> set xs"
  shows "t1 \<le> u"
  using assms by fastforce

lemma after_head_is_later:
  fixes xs :: "(nat \<times> 'a) list"
  assumes "sorted_wrt (\<lambda>x y. fst x < fst y) xs" and "(u, y) \<in> set (drop 1 xs)"
  shows "\<exists>h z. (h, z) \<in> set xs \<and> h < u"
proof (cases xs)
  case Nil
  with assms show ?thesis by simp
next
  case (Cons a list)
  obtain h z where a: "a = (h, z)" by (cases a)
  from assms Cons a have "h < u" by fastforce
  with Cons a show ?thesis
    by (intro exI[of _ h] exI[of _ z]) simp
qed

text \<open>
  The pattern of lines 256-266 and 370-376: the first value of the fold that a session
  subscribes is not delivered by the switched stream, in that session or in any other.
\<close>

lemma first_of_session_skipped:
  assumes sorted: "sorted_wrt (\<lambda>x y. fst x < fst y) (ops 0)"
    and session: "(t, x) \<in> set (outer s)"
    and first: "scan f seed (Subject ops) t = (t1, m) # rest"
  shows "t1 \<notin> fst ` set (switchMap
           (\<lambda>te. takeUntil (skip 1 (scan f seed (Subject ops))) notifier) outer s)"
proof
  assume "t1 \<in> fst ` set (switchMap
           (\<lambda>te. takeUntil (skip 1 (scan f seed (Subject ops))) notifier) outer s)"
  then obtain y where "(t1, y) \<in> set (switchMap
           (\<lambda>te. takeUntil (skip 1 (scan f seed (Subject ops))) notifier) outer s)"
    by auto
  then obtain t0 x0 where t0: "(t0, x0) \<in> set (outer s)"
    and inner: "(t1, y) \<in> set (takeUntil (skip 1 (scan f seed (Subject ops))) notifier t0)"
    and alive: "\<forall>(t', x') \<in> set (outer s). \<not> (t0 < t' \<and> t' \<le> t1)"
    unfolding in_switchMap by auto
  from inner have later: "(t1, y) \<in> set (drop 1 (scan_from f seed (Subject ops t0)))"
    by (simp add: in_takeUntil skip_def scan_def)
  have "sorted_wrt (\<lambda>x y. fst x < fst y) (scan_from f seed (Subject ops t0))"
    by (intro increasing_scan_from increasing_Subject sorted)
  from after_head_is_later[OF this later]
  obtain h z where "(h, z) \<in> set (scan_from f seed (Subject ops t0))" and "h < t1"
    by blast
  then have "h \<in> fst ` set (scan_from f seed (Subject ops t0))"
    by force
  then have "h \<in> fst ` set (Subject ops t0)"
    by (simp only: times_scan_from)
  then obtain v where h: "(h, v) \<in> set (ops 0)" and "t0 < h"
    by (auto simp: in_Subject)
  have "t < t1"
  proof -
    have "(t1, m) \<in> set (scan_from f seed (Subject ops t))"
      using first by (simp add: scan_def)
    then have "t1 \<in> fst ` set (scan_from f seed (Subject ops t))"
      by force
    then have "t1 \<in> fst ` set (Subject ops t)"
      by (simp only: times_scan_from)
    then show ?thesis
      by (auto simp: in_Subject)
  qed
  have "h \<le> t"
  proof (rule ccontr)
    assume "\<not> h \<le> t"
    with h have "(h, v) \<in> set (Subject ops t)"
      by (simp add: in_Subject)
    then have "h \<in> fst ` set (Subject ops t)"
      by force
    then have "h \<in> fst ` set (scan_from f seed (Subject ops t))"
      by (simp only: times_scan_from)
    then obtain w where "(h, w) \<in> set (scan_from f seed (Subject ops t))"
      by auto
    note member = this
    have increasing: "sorted_wrt (\<lambda>x y. fst x < fst y) (scan_from f seed (Subject ops t))"
      by (intro increasing_scan_from increasing_Subject sorted)
    have "scan_from f seed (Subject ops t) = (t1, m) # rest"
      using first by (simp add: scan_def)
    from head_is_earliest[OF increasing this member] have "t1 \<le> h" .
    with \<open>h < t1\<close> show False by simp
  qed
  with \<open>t0 < h\<close> \<open>t < t1\<close> have "t0 < t \<and> t \<le> t1"
    by simp
  with alive session show False
    by auto
qed

lemma increasing_touchMove_operations:
  "sorted_wrt (\<lambda>x y. fst x < fst y) (map_obs f (filter_obs P (touchMove element)) s)"
  unfolding touchMove_def
  by (intro increasing_map_obs increasing_filter_obs increasing_fromEvent)

section \<open>Mutual exclusion of the two gestures\<close>

text \<open>
  Claim C1. The predicate that feeds the single-touch move stream and the one that feeds
  the pinch change stream never hold of the same event, and for every history of the
  element no event makes both the single-touch move stream and the pinch change stream
  emit, whenever their observers subscribed.
\<close>

theorem single_move_pinch_change_exclusive:
  "\<not> (isSingle te \<and> isPair te) \<and>
   \<not> (t \<in> fst ` set (singleTouch element s) \<and> t \<in> fst ` set (pinchChange element s'))"
proof -
  have "\<not> (isSingle te \<and> isPair te)" for te
    by (simp add: isSingle_def isPair_def)
  moreover have "\<not> (t \<in> fst ` set (singleTouch element s) \<and>
      t \<in> fst ` set (pinchChange element s'))"
  proof
    assume both: "t \<in> fst ` set (singleTouch element s) \<and>
      t \<in> fst ` set (pinchChange element s')"
    then obtain m p where "(t, m) \<in> set (singleTouch element s)"
      and "(t, p) \<in> set (pinchChange element s')"
      by auto
    then have "isSingle (element ! (t - 1))" and "isPair (element ! (t - 1))"
      using in_singleTouch in_pinchChange by blast+
    then show False
      by (simp add: isSingle_def isPair_def)
  qed
  ultimately show ?thesis by blast
qed

section \<open>Geometry of a pinch\<close>

lemma pinchOperation_fields:
  "p_clientX (pinchOperation te previous) =
     min (clientX (touches te ! 0)) (clientX (touches te ! 1)) +
     (max (clientX (touches te ! 0)) (clientX (touches te ! 1)) -
      min (clientX (touches te ! 0)) (clientX (touches te ! 1))) / 2"
  "p_clientY (pinchOperation te previous) =
     min (clientY (touches te ! 0)) (clientY (touches te ! 1)) +
     (max (clientY (touches te ! 0)) (clientY (touches te ! 1)) -
      min (clientY (touches te ! 0)) (clientY (touches te ! 1))) / 2"
  "p_pageX (pinchOperation te previous) =
     p_clientX (pinchOperation te previous) + pageX (touches te ! 0) - clientX (touches te ! 0)"
  "p_pageY (pinchOperation te previous) =
     p_clientY (pinchOperation te previous) + pageY (touches te ! 0) - clientY (touches te ! 0)"
  "p_screenX (pinchOperation te previous) =
     p_clientX (pinchOperation te previous) + screenX (touches te ! 0) - clientX (touches te ! 0)"
  "p_screenY (pinchOperation te previous) =
     p_clientY (pinchOperation te previous) + screenY (touches te ! 0) - clientY (touches te ! 0)"
  "p_distanceX (pinchOperation te previous) = \<bar>clientX (touches te ! 0) - clientX (touches te ! 1)\<bar>"
  "p_distanceY (pinchOperation te previous) = \<bar>clientY (touches te ! 0) - clientY (touches te ! 1)\<bar>"
  "p_distance (pinchOperation te previous) =
     sqrt (p_distanceX (pinchOperation te previous) * p_distanceX (pinchOperation te previous) +
           p_distanceY (pinchOperation te previous) * p_distanceY (pinchOperation te previous))"
  "p_distanceChange (pinchOperation te previous) =
     p_distance (pinchOperation te previous) - p_distance previous"
  "p_changeX (pinchOperation te previous) =
     p_distanceX (pinchOperation te previous) - p_distanceX previous"
  "p_changeY (pinchOperation te previous) =
     p_distanceY (pinchOperation te previous) - p_distanceY previous"
  "p_touch1 (pinchOperation te previous) = Some (touches te ! 0)"
  "p_touch2 (pinchOperation te previous) = Some (touches te ! 1)"
  "p_originalEvent (pinchOperation te previous) = Some te"
  by (simp_all add: pinchOperation_def Let_def)

lemma midpoint_min_max: "min a b + (max a b - min a b) / 2 = (a + b) / (2::real)"
  by (simp add: min_def max_def field_simps)

text \<open>
  Claim C2. Every descriptor that the pinch stream emits comes from a touchmove event with
  two touches A and B. Its client centre is the midpoint of the bounding box of A and B on
  each axis, its page and screen centres are the client centre moved by A's offsets from
  client to page and from client to screen, its distances on the axes are the absolute
  differences of the client coordinates, and its distance is their Euclidean norm.
\<close>

theorem pinch_descriptor_geometry:
  assumes "(t, p) \<in> set (pinchChange element s)"
  shows "let te = element ! (t - 1); A = touches te ! 0; B = touches te ! 1 in
     etype te = touchmove \<and> touches te = [A, B] \<and>
     p_clientX p = min (clientX A) (clientX B)
                   + (max (clientX A) (clientX B) - min (clientX A) (clientX B)) / 2 \<and>
     p_clientY p = min (clientY A) (clientY B)
                   + (max (clientY A) (clientY B) - min (clientY A) (clientY B)) / 2 \<and>
     p_clientX p = (clientX A + clientX B) / 2 \<and>
     p_clientY p = (clientY A + clientY B) / 2 \<and>
     p_pageX p = p_clientX p + (pageX A - clientX A) \<and>
     p_pageY p = p_clientY p + (pageY A - clientY A) \<and>
     p_screenX p = p_clientX p + (screenX A - clientX A) \<and>
     p_screenY p = p_clientY p + (screenY A - clientY A) \<and>
     p_distanceX p = \<bar>clientX A - clientX B\<bar> \<and>
     p_distanceY p = \<bar>clientY A - clientY B\<bar> \<and>
     p_distance p = sqrt ((p_distanceX p)\<^sup>2 + (p_distanceY p)\<^sup>2)"
proof -
  define te where "te = element ! (t - 1)"
  from in_pinchChange[OF assms] obtain previous
    where move: "etype te = touchmove" and pair: "isPair te"
      and p: "p = pinchOperation te previous"
    unfolding te_def by blast
  from pair have "length (touches te) = 2"
    by (simp add: isPair_def)
  then have two: "touches te = [touches te ! 0, touches te ! 1]"
    by (cases "touches te"; simp; cases "tl (touches te)"; auto)
  have "p_clientX p = (clientX (touches te ! 0) + clientX (touches te ! 1)) / 2"
    and "p_clientY p = (clientY (touches te ! 0) + clientY (touches te ! 1)) / 2"
    unfolding p pinchOperation_fields by (rule midpoint_min_max)+
  with move two show ?thesis
    unfolding Let_def te_def[symmetric] p
    by (simp add: pinchOperation_fields power2_eq_square)
qed

lemmas pinchChange_eval =
  pinchChange_def switchMap_def takeUntil_def skip_def pinch_scan_def scan_def
  pinchOperations_def Subject_def map_obs_def filter_obs_def touchMove_def fromEvent_def
  pinchStart_def pinchEnd_def touchesChanged_def merge_obs_def touchStart_def touchEnd_def
  touchCancel_def isPair_def touchEvent_def

lemma pinchChange_pinchHistory:
  "pinchChange pinchHistory 0 =
     [(3, pinchOperation (touchEvent touchmove [touchAt 0 0, touchAt 10 0])
            (pinchOperation (touchEvent touchmove [touchAt 0 0, touchAt 10 0]) pinchSeed))]"
  by (simp add: pinchHistory_def pinchChange_eval)

theorem pinch_descriptor_geometry_witness:
  "(3, pinchOperation (touchEvent touchmove [touchAt 0 0, touchAt 10 0])
         (pinchOperation (touchEvent touchmove [touchAt 0 0, touchAt 10 0]) pinchSeed))
     \<in> set (pinchChange pinchHistory 0) \<and>
   p_distance (pinchOperation (touchEvent touchmove [touchAt 0 0, touchAt 10 0])
         (pinchOperation (touchEvent touchmove [touchAt 0 0, touchAt 10 0]) pinchSeed)) = 10 \<and>
   p_distanceX (pinchOperation (touchEvent touchmove [touchAt 0 0, touchAt 10 0])
         (pinchOperation (touchEvent touchmove [touchAt 0 0, touchAt 10 0]) pinchSeed)) = 10 \<and>
   p_distanceY (pinchOperation (touchEvent touchmove [touchAt 0 0, touchAt 10 0])
         (pinchOperation (touchEvent touchmove [touchAt 0 0, touchAt 10 0]) pinchSeed)) = 0 \<and>
   p_clientX (pinchOperation (touchEvent touchmove [touchAt 0 0, touchAt 10 0])
         (pinchOperation (touchEvent touchmove [touchAt 0 0, touchAt 10 0]) pinchSeed)) = 5 \<and>
   p_clientY (pinchOperation (touchEvent touchmove [touchAt 0 0, touchAt 10 0])
         (pinchOperation (touchEvent touchmove [touchAt 0 0, touchAt 10 0]) pinchSeed)) = 0"
proof -
  let ?p = "pinchOperation (touchEvent touchmove [touchAt 0 0, touchAt 10 0])
         (pinchOperation (touchEvent touchmove [touchAt 0 0, touchAt 10 0]) pinchSeed)"
  have emitted: "(3, ?p) \<in> set (pinchChange pinchHistory 0)"
    by (simp add: pinchChange_pinchHistory)
  have third: "pinchHistory ! (3 - 1) = touchEvent touchmove [touchAt 0 0, touchAt 10 0]"
    by (simp add: pinchHistory_def)
  from pinch_descriptor_geometry[OF emitted]
  have "p_distanceX ?p = 10" and "p_distanceY ?p = 0"
    and "p_clientX ?p = 5" and "p_clientY ?p = 0"
    and "p_distance ?p = sqrt ((p_distanceX ?p)\<^sup>2 + (p_distanceY ?p)\<^sup>2)"
    unfolding third Let_def by (simp_all add: touchEvent_def touchAt_def)
  then have "p_distance ?p = 10"
    by simp
  with emitted \<open>p_distanceX ?p = 10\<close> \<open>p_distanceY ?p = 0\<close> \<open>p_clientX ?p = 5\<close>
    \<open>p_clientY ?p = 0\<close>
  show ?thesis by blast
qed

text \<open>
  Claim C10. With the two touches of a pair move event in the other order, the client
  centre, the distances on both axes, the distance and the three changes against the
  previous descriptor are the same. The page and screen centres follow the first touch:
  they move by the difference of the two touches' offsets from client to page and from
  client to screen.
\<close>

theorem pinch_swap_contacts:
  "let p = pinchOperation (te\<lparr>touches := [A, B]\<rparr>) previous;
       q = pinchOperation (te\<lparr>touches := [B, A]\<rparr>) previous
   in p_clientX p = p_clientX q \<and> p_clientY p = p_clientY q \<and>
      p_distanceX p = p_distanceX q \<and> p_distanceY p = p_distanceY q \<and>
      p_distance p = p_distance q \<and> p_distanceChange p = p_distanceChange q \<and>
      p_changeX p = p_changeX q \<and> p_changeY p = p_changeY q \<and>
      p_pageX p - p_pageX q = (pageX A - clientX A) - (pageX B - clientX B) \<and>
      p_pageY p - p_pageY q = (pageY A - clientY A) - (pageY B - clientY B) \<and>
      p_screenX p - p_screenX q = (screenX A - clientX A) - (screenX B - clientX B) \<and>
      p_screenY p - p_screenY q = (screenY A - clientY A) - (screenY B - clientY B)"
proof -
  have sym: "\<bar>a - b\<bar> = \<bar>b - a\<bar>" for a b :: real
    by simp
  have mid: "min a b + (max a b - min a b) / 2 = min b a + (max b a - min b a) / 2"
    for a b :: real
    by (simp add: min.commute max.commute)
  show ?thesis
    unfolding Let_def pinchOperation_fields
    by (simp add: sym[of "clientX A" "clientX B"] sym[of "clientY A" "clientY B"]
        mid[of "clientX A" "clientX B"] mid[of "clientY A" "clientY B"])
qed

section \<open>Changes of a pinch against the previous descriptor\<close>

text \<open>
  Claim C5. Every subscription to the pinch fold, so every pinch session, starts from the
  all-zero seed: the first descriptor's distance change is its distance and its changes on
  the axes are its distances on the axes. Every later descriptor's distance change is its
  distance minus the distance of the descriptor before it in the fold, and likewise on
  each axis.
\<close>

theorem pinch_change_against_previous:
  assumes "i < length (pinch_scan element s)"
  shows "let p = snd (pinch_scan element s ! i); q = snd (pinch_scan element s ! (i - 1)) in
     (i = 0 \<longrightarrow> p_distanceChange p = p_distance p \<and> p_changeX p = p_distanceX p \<and>
                 p_changeY p = p_distanceY p) \<and>
     (0 < i \<longrightarrow> p_distanceChange p = p_distance p - p_distance q \<and>
                 p_changeX p = p_distanceX p - p_distanceX q \<and>
                 p_changeY p = p_distanceY p - p_distanceY q)"
proof -
  define p where "p = snd (pinch_scan element s ! i)"
  define q where "q = snd (pinch_scan element s ! (i - 1))"
  define te where "te = element ! (fst (pinch_scan element s ! i) - 1)"
  have p: "p = pinchOperation te (if i = 0 then pinchSeed else q)"
    unfolding p_def q_def te_def by (rule pinch_scan_nth[OF assms])
  have first: "p_distanceChange p = p_distance p \<and> p_changeX p = p_distanceX p \<and>
      p_changeY p = p_distanceY p" if "i = 0"
    using that unfolding p by (simp add: pinchOperation_fields pinchSeed_def)
  have later: "p_distanceChange p = p_distance p - p_distance q \<and>
      p_changeX p = p_distanceX p - p_distanceX q \<and>
      p_changeY p = p_distanceY p - p_distanceY q" if "0 < i"
    using that unfolding p by (simp add: pinchOperation_fields)
  from first later show ?thesis
    unfolding Let_def p_def[symmetric] q_def[symmetric] by blast
qed

lemma sqrt_100: "sqrt 100 = 10"
  using real_sqrt_abs[of 10] by simp

lemma sqrt_400: "sqrt 400 = 20"
  using real_sqrt_abs[of 20] by simp

lemmas pinch_scan_eval =
  pinch_scan_def scan_def pinchOperations_def Subject_def map_obs_def filter_obs_def
  touchMove_def fromEvent_def isPair_def touchEvent_def

lemma pinch_scan_spreadHistory:
  "pinch_scan spreadHistory 1 =
     [(2, pinchOperation (touchEvent touchmove [touchAt 0 0, touchAt 10 0]) pinchSeed),
      (3, pinchOperation (touchEvent touchmove [touchAt 0 0, touchAt 20 0])
            (pinchOperation (touchEvent touchmove [touchAt 0 0, touchAt 10 0]) pinchSeed))]"
  by (simp add: spreadHistory_def pinch_scan_eval)

theorem pinch_change_against_previous_witness:
  "(1, touchEvent touchstart [touchAt 0 0, touchAt 10 0]) \<in> set (pinchStart spreadHistory 0) \<and>
   length (pinch_scan spreadHistory 1) = 2 \<and>
   p_distance (snd (pinch_scan spreadHistory 1 ! 0)) = 10 \<and>
   p_distanceChange (snd (pinch_scan spreadHistory 1 ! 0)) = 10 \<and>
   p_changeX (snd (pinch_scan spreadHistory 1 ! 0)) = 10 \<and>
   p_changeY (snd (pinch_scan spreadHistory 1 ! 0)) = 0 \<and>
   p_distance (snd (pinch_scan spreadHistory 1 ! 1)) = 20 \<and>
   p_distanceChange (snd (pinch_scan spreadHistory 1 ! 1)) = 10 \<and>
   p_changeX (snd (pinch_scan spreadHistory 1 ! 1)) = 10 \<and>
   p_changeY (snd (pinch_scan spreadHistory 1 ! 1)) = 0"
proof -
  let ?l = "pinch_scan spreadHistory 1"
  have started: "(1, touchEvent touchstart [touchAt 0 0, touchAt 10 0])
      \<in> set (pinchStart spreadHistory 0)"
    by (simp add: spreadHistory_def pinchStart_def touchesChanged_def merge_obs_def
        filter_obs_def touchStart_def touchEnd_def touchCancel_def fromEvent_def isPair_def
        touchEvent_def)
  have len: "length ?l = 2"
    unfolding pinch_scan_spreadHistory by simp
  have d0: "p_distance (snd (?l ! 0)) = 10" "p_distanceX (snd (?l ! 0)) = 10"
    "p_distanceY (snd (?l ! 0)) = 0"
    unfolding pinch_scan_spreadHistory
    by (simp_all add: pinchOperation_fields touchEvent_def touchAt_def sqrt_100)
  have d1: "p_distance (snd (?l ! 1)) = 20" "p_distanceX (snd (?l ! 1)) = 20"
    "p_distanceY (snd (?l ! 1)) = 0"
    unfolding pinch_scan_spreadHistory
    by (simp_all add: pinchOperation_fields touchEvent_def touchAt_def sqrt_400)
  from len have "0 < length ?l" and "1 < length ?l"
    by simp_all
  from pinch_change_against_previous[OF \<open>0 < length ?l\<close>]
    pinch_change_against_previous[OF \<open>1 < length ?l\<close>] d0 d1
  have "p_distanceChange (snd (?l ! 0)) = 10" "p_changeX (snd (?l ! 0)) = 10"
    "p_changeY (snd (?l ! 0)) = 0" "p_distanceChange (snd (?l ! 1)) = 10"
    "p_changeX (snd (?l ! 1)) = 10" "p_changeY (snd (?l ! 1)) = 0"
    by (simp_all add: Let_def)
  with started len d0 d1 show ?thesis
    by blast
qed

section \<open>Movement of a single touch\<close>

lemmas singleTouch_eval =
  singleTouch_def singleTouchMoveStart_def switchMap_def mergeMap_def takeUntil_def
  skip_def take_obs_def singleTouchMove_scan_def scan_def singleTouchMoveOperations_def
  Subject_def map_obs_def filter_obs_def touchMove_def fromEvent_def singleTouchStart_def
  multipleTouchStart_def touchStop_def merge_obs_def touchStart_def touchEnd_def
  touchCancel_def isSingle_def touchEvent_def

lemma singleTouchMoveOperation_fields:
  "movementX (singleTouchMoveOperation te previous) =
     js_minus (Num (pageX (touches te ! 0))) (ToNumber (tm_pageX previous))"
  "movementY (singleTouchMoveOperation te previous) =
     js_minus (Num (pageY (touches te ! 0))) (ToNumber (tm_pageY previous))"
  "tm_pageX (singleTouchMoveOperation te previous) = Some (pageX (touches te ! 0))"
  "tm_pageY (singleTouchMoveOperation te previous) = Some (pageY (touches te ! 0))"
  by (simp_all add: singleTouchMoveOperation_def new_TouchMove_def Let_def)

lemma singleTouchMoveStart_dragHistory:
  "singleTouchMoveStart dragHistory 0 =
     [(2, singleTouchMoveOperation (touchEvent touchmove [touchAt 100 100])
            (new_TouchMove None))]"
  by (simp add: dragHistory_def singleTouch_eval)

lemma singleTouch_dragHistory:
  "singleTouch dragHistory 0 =
     [(3, singleTouchMoveOperation (touchEvent touchmove [touchAt 105 98])
            (singleTouchMoveOperation (touchEvent touchmove [touchAt 100 100])
               (new_TouchMove None)))]"
  by (simp add: dragHistory_def singleTouch_eval)

lemma singleTouchMoveStart_shortDragHistory:
  "singleTouchMoveStart shortDragHistory 0 =
     [(2, singleTouchMoveOperation (touchEvent touchmove [touchAt 105 98])
            (new_TouchMove None))]"
  by (simp add: shortDragHistory_def singleTouch_eval)

lemma singleTouch_shortDragHistory: "singleTouch shortDragHistory 0 = []"
  by (simp add: shortDragHistory_def singleTouch_eval)

text \<open>
  Against claim C3: in the session that the touchstart at page (100,100) opens, the start
  stream emits once, at the first touchmove, and the movement of that start event is
  \<open>NaN\<close> on both axes, not 0: it is the difference against the seed, whose page position
  was never assigned. When the first touchmove is already at (105,98), the start event is
  that one, again with movement \<open>NaN\<close>, and the move stream emits nothing.
\<close>

theorem start_event_movement_counterexample:
  "singleTouchMoveStart dragHistory 0 =
     [(2, singleTouchMoveOperation (touchEvent touchmove [touchAt 100 100])
            (new_TouchMove None))] \<and>
   movementX (singleTouchMoveOperation (touchEvent touchmove [touchAt 100 100])
     (new_TouchMove None)) = NaN \<and>
   movementY (singleTouchMoveOperation (touchEvent touchmove [touchAt 100 100])
     (new_TouchMove None)) = NaN \<and>
   movementX (singleTouchMoveOperation (touchEvent touchmove [touchAt 100 100])
     (new_TouchMove None)) \<noteq> Num 0 \<and>
   movementY (singleTouchMoveOperation (touchEvent touchmove [touchAt 100 100])
     (new_TouchMove None)) \<noteq> Num 0 \<and>
   singleTouchMoveStart shortDragHistory 0 =
     [(2, singleTouchMoveOperation (touchEvent touchmove [touchAt 105 98])
            (new_TouchMove None))] \<and>
   movementX (singleTouchMoveOperation (touchEvent touchmove [touchAt 105 98])
     (new_TouchMove None)) \<noteq> Num 0 \<and>
   movementY (singleTouchMoveOperation (touchEvent touchmove [touchAt 105 98])
     (new_TouchMove None)) \<noteq> Num 0 \<and>
   singleTouch shortDragHistory 0 = []"
  by (simp add: singleTouchMoveStart_dragHistory singleTouchMoveStart_shortDragHistory
      singleTouch_shortDragHistory singleTouchMoveOperation_fields new_TouchMove_def
      ToNumber_def)

lemma singleTouchMove_scan_dragHistory:
  "singleTouchMove_scan dragHistory 1 =
     [(2, singleTouchMoveOperation (touchEvent touchmove [touchAt 100 100])
            (new_TouchMove None)),
      (3, singleTouchMoveOperation (touchEvent touchmove [touchAt 105 98])
            (singleTouchMoveOperation (touchEvent touchmove [touchAt 100 100])
               (new_TouchMove None)))]"
  by (simp add: dragHistory_def singleTouch_eval)

lemma movement_of_second_drag:
  "movementX (singleTouchMoveOperation (touchEvent touchmove [touchAt 105 98])
      (singleTouchMoveOperation (touchEvent touchmove [touchAt 100 100])
         (new_TouchMove None))) = Num 5"
  "movementY (singleTouchMoveOperation (touchEvent touchmove [touchAt 105 98])
      (singleTouchMoveOperation (touchEvent touchmove [touchAt 100 100])
         (new_TouchMove None))) = Num (- 2)"
  by (simp_all add: singleTouchMoveOperation_fields ToNumber_def touchEvent_def touchAt_def)

lemma movement_of_first_drag:
  "movementX (singleTouchMoveOperation te (new_TouchMove None)) = NaN"
  "movementY (singleTouchMoveOperation te (new_TouchMove None)) = NaN"
  by (simp_all add: singleTouchMoveOperation_fields ToNumber_def new_TouchMove_def)

text \<open>
  Claim C3, amended. In every subscription to the fold of single-touch movements, so in
  every session, the movement of a tracked value is the JavaScript difference between the
  page position of the event's only touch and the page position of the state before it in
  the fold. The state before the first value is the seed, which has no page position, so
  the first movement is \<open>NaN\<close> on both axes; every later movement is the difference of
  the two page positions on each axis. With a finger down at page (100,100), a first
  touchmove there and a second at (105,98), the start stream emits the first tracked
  value, with movement \<open>NaN\<close>, and the move stream emits the second, with movement
  (5,-2).
\<close>

theorem single_touch_movement_against_previous:
  "(\<forall>i < length (singleTouchMove_scan element s).
      let m = snd (singleTouchMove_scan element s ! i);
          touch = touches (element ! (fst (singleTouchMove_scan element s ! i) - 1)) ! 0;
          before = touches (element ! (fst (singleTouchMove_scan element s ! (i - 1)) - 1)) ! 0;
          previous = (if i = 0 then new_TouchMove None
                      else snd (singleTouchMove_scan element s ! (i - 1)))
      in movementX m = js_minus (Num (pageX touch)) (ToNumber (tm_pageX previous)) \<and>
         movementY m = js_minus (Num (pageY touch)) (ToNumber (tm_pageY previous)) \<and>
         (i = 0 \<longrightarrow> movementX m = NaN \<and> movementY m = NaN) \<and>
         (0 < i \<longrightarrow> movementX m = Num (pageX touch - pageX before) \<and>
                     movementY m = Num (pageY touch - pageY before))) \<and>
   singleTouchMoveStart dragHistory 0 =
     [(2, singleTouchMoveOperation (touchEvent touchmove [touchAt 100 100])
            (new_TouchMove None))] \<and>
   movementX (singleTouchMoveOperation (touchEvent touchmove [touchAt 100 100])
     (new_TouchMove None)) = NaN \<and>
   movementY (singleTouchMoveOperation (touchEvent touchmove [touchAt 100 100])
     (new_TouchMove None)) = NaN \<and>
   singleTouch dragHistory 0 =
     [(3, singleTouchMoveOperation (touchEvent touchmove [touchAt 105 98])
            (singleTouchMoveOperation (touchEvent touchmove [touchAt 100 100])
               (new_TouchMove None)))] \<and>
   movementX (singleTouchMoveOperation (touchEvent touchmove [touchAt 105 98])
      (singleTouchMoveOperation (touchEvent touchmove [touchAt 100 100])
         (new_TouchMove None))) = Num 5 \<and>
   movementY (singleTouchMoveOperation (touchEvent touchmove [touchAt 105 98])
      (singleTouchMoveOperation (touchEvent touchmove [touchAt 100 100])
         (new_TouchMove None))) = Num (- 2)"
proof -
  let ?l = "singleTouchMove_scan element s"
  have general: "let m = snd (?l ! i);
          touch = touches (element ! (fst (?l ! i) - 1)) ! 0;
          before = touches (element ! (fst (?l ! (i - 1)) - 1)) ! 0;
          previous = (if i = 0 then new_TouchMove None else snd (?l ! (i - 1)))
      in movementX m = js_minus (Num (pageX touch)) (ToNumber (tm_pageX previous)) \<and>
         movementY m = js_minus (Num (pageY touch)) (ToNumber (tm_pageY previous)) \<and>
         (i = 0 \<longrightarrow> movementX m = NaN \<and> movementY m = NaN) \<and>
         (0 < i \<longrightarrow> movementX m = Num (pageX touch - pageX before) \<and>
                     movementY m = Num (pageY touch - pageY before))"
    if i: "i < length ?l" for i
  proof -
    define m where "m = snd (?l ! i)"
    define te where "te = element ! (fst (?l ! i) - 1)"
    define previous where
      "previous = (if i = 0 then new_TouchMove None else snd (?l ! (i - 1)))"
    define before where "before = touches (element ! (fst (?l ! (i - 1)) - 1)) ! 0"
    have m: "m = singleTouchMoveOperation te previous"
      unfolding m_def te_def previous_def by (rule singleTouchMove_scan_nth[OF i])
    have first: "movementX m = NaN \<and> movementY m = NaN" if "i = 0"
      using that unfolding m previous_def by (simp add: movement_of_first_drag)
    have later: "movementX m = Num (pageX (touches te ! 0) - pageX before) \<and>
        movementY m = Num (pageY (touches te ! 0) - pageY before)" if "0 < i"
    proof -
      from that i have "i - 1 < length ?l" by simp
      from singleTouchMove_scan_nth[OF this] that
      have "tm_pageX previous = Some (pageX before)" "tm_pageY previous = Some (pageY before)"
        unfolding previous_def before_def by (simp_all add: singleTouchMoveOperation_fields)
      then show ?thesis
        unfolding m by (simp add: singleTouchMoveOperation_fields ToNumber_def)
    qed
    from first later show ?thesis
      unfolding Let_def m_def[symmetric] te_def[symmetric] previous_def[symmetric]
        before_def[symmetric]
      by (simp add: m singleTouchMoveOperation_fields)
  qed
  then show ?thesis
    using singleTouchMoveStart_dragHistory singleTouch_dragHistory movement_of_second_drag
      movement_of_first_drag
    by blast
qed

theorem single_touch_movement_against_previous_witness:
  "(1, touchEvent touchstart [touchAt 100 100]) \<in> set (singleTouchStart dragHistory 0) \<and>
   length (singleTouchMove_scan dragHistory 1) = 2 \<and>
   movementX (snd (singleTouchMove_scan dragHistory 1 ! 0)) = NaN \<and>
   movementY (snd (singleTouchMove_scan dragHistory 1 ! 0)) = NaN \<and>
   movementX (snd (singleTouchMove_scan dragHistory 1 ! 1)) = Num 5 \<and>
   movementY (snd (singleTouchMove_scan dragHistory 1 ! 1)) = Num (- 2)"
proof -
  let ?l = "singleTouchMove_scan dragHistory 1"
  have started: "(1, touchEvent touchstart [touchAt 100 100])
      \<in> set (singleTouchStart dragHistory 0)"
    by (simp add: dragHistory_def singleTouch_eval)
  have len: "length ?l = 2"
    unfolding singleTouchMove_scan_dragHistory by simp
  then have "0 < length ?l" and "1 < length ?l"
    by simp_all
  note general = single_touch_movement_against_previous[of dragHistory 1, THEN conjunct1,
      rule_format]
  have times: "fst (?l ! 0) = 2" "fst (?l ! 1) = 3"
    unfolding singleTouchMove_scan_dragHistory by simp_all
  have events: "touches (dragHistory ! (2 - 1)) ! 0 = touchAt 100 100"
    "touches (dragHistory ! (3 - 1)) ! 0 = touchAt 105 98"
    by (simp_all add: dragHistory_def touchEvent_def)
  from general[OF \<open>0 < length ?l\<close>, unfolded Let_def]
  have first: "movementX (snd (?l ! 0)) = NaN" "movementY (snd (?l ! 0)) = NaN"
    by blast+
  have "0 < (1::nat)" by simp
  from general[OF \<open>1 < length ?l\<close>, unfolded Let_def, THEN conjunct2, THEN conjunct2,
      THEN conjunct2, THEN mp, OF this]
  have "movementX (snd (?l ! 1)) = Num (pageX (touchAt 105 98) - pageX (touchAt 100 100))"
    "movementY (snd (?l ! 1)) = Num (pageY (touchAt 105 98) - pageY (touchAt 100 100))"
    unfolding diff_self_eq_0 times events by blast+
  then have "movementX (snd (?l ! 1)) = Num 5" "movementY (snd (?l ! 1)) = Num (- 2)"
    by (simp_all add: touchAt_def)
  moreover note first
  ultimately show ?thesis
    using started len by blast
qed

section \<open>The first value of a session\<close>

text \<open>
  Claim C4. A single-touch session is opened by a notification of \<open>singleTouchStart\<close>
  at some time \<open>t\<close> and folds the movements from then on; a pinch session is opened by a
  notification of \<open>pinchStart\<close>. The event that yields the first value of a session's
  fold never makes the move stream, respectively the pinch change stream, emit anything.
  The start stream delivers that first value of a single-touch session, when neither a
  stop nor a multiple-touch start came before it.
\<close>

theorem first_value_of_session_not_on_change_streams:
  "((t, te) \<in> set (singleTouchStart element s) \<and>
    singleTouchMove_scan element t = (t1, m) # rest \<longrightarrow>
      t1 \<notin> fst ` set (singleTouch element s) \<and>
      ((\<forall>(tn, y) \<in> set (merge_obs [touchStop element, multipleTouchStart element] t). t1 < tn)
        \<longrightarrow> (t1, m) \<in> set (singleTouchMoveStart element s))) \<and>
   ((t', te') \<in> set (pinchStart element s') \<and>
    pinch_scan element t' = (t1', p) # rest' \<longrightarrow>
      t1' \<notin> fst ` set (pinchChange element s'))"
proof (intro conjI impI)
  assume session: "(t, te) \<in> set (singleTouchStart element s) \<and>
    singleTouchMove_scan element t = (t1, m) # rest"
  then have first: "scan (\<lambda>touch operation. operation touch) (new_TouchMove None)
      (Subject (map_obs singleTouchMoveOperation (filter_obs isSingle (touchMove element)))) t
      = (t1, m) # rest"
    by (simp add: singleTouchMove_scan_def singleTouchMoveOperations_def)
  from session have started: "(t, te) \<in> set (singleTouchStart element s)"
    by simp
  show "t1 \<notin> fst ` set (singleTouch element s)"
    unfolding singleTouch_def singleTouchMove_scan_def singleTouchMoveOperations_def
    by (rule first_of_session_skipped[where ops = "map_obs singleTouchMoveOperation
          (filter_obs isSingle (touchMove element))" and outer = "singleTouchStart element"
          and s = s and f = "\<lambda>touch operation. operation touch",
          OF increasing_touchMove_operations started first])
next
  assume session: "(t, te) \<in> set (singleTouchStart element s) \<and>
    singleTouchMove_scan element t = (t1, m) # rest"
  assume "\<forall>(tn, y) \<in> set (merge_obs [touchStop element, multipleTouchStart element] t). t1 < tn"
  then have "\<not> list_ex (\<lambda>(tn, y). tn \<le> t1)
      (merge_obs [touchStop element, multipleTouchStart element] t)"
    by (auto simp: list_ex_iff)
  with session have "(t1, m) \<in> set (take_obs 1
      (takeUntil (singleTouchMove_scan element)
         (merge_obs [touchStop element, multipleTouchStart element])) t)"
    by (simp add: take_obs_def takeUntil_def)
  with session show "(t1, m) \<in> set (singleTouchMoveStart element s)"
    unfolding singleTouchMoveStart_def in_mergeMap by blast
next
  assume session: "(t', te') \<in> set (pinchStart element s') \<and>
    pinch_scan element t' = (t1', p) # rest'"
  then have first: "scan (\<lambda>pinch operation. operation pinch) pinchSeed
      (Subject (map_obs pinchOperation (filter_obs isPair (touchMove element)))) t'
      = (t1', p) # rest'"
    by (simp add: pinch_scan_def pinchOperations_def)
  from session have started: "(t', te') \<in> set (pinchStart element s')"
    by simp
  show "t1' \<notin> fst ` set (pinchChange element s')"
    unfolding pinchChange_def pinch_scan_def pinchOperations_def
    by (rule first_of_session_skipped[where ops = "map_obs pinchOperation
          (filter_obs isPair (touchMove element))" and outer = "pinchStart element"
          and s = s' and f = "\<lambda>pinch operation. operation pinch",
          OF increasing_touchMove_operations started first])
qed

lemma pinch_scan_pinchHistory:
  "pinch_scan pinchHistory 1 =
     [(2, pinchOperation (touchEvent touchmove [touchAt 0 0, touchAt 10 0]) pinchSeed),
      (3, pinchOperation (touchEvent touchmove [touchAt 0 0, touchAt 10 0])
            (pinchOperation (touchEvent touchmove [touchAt 0 0, touchAt 10 0]) pinchSeed))]"
  by (simp add: pinchHistory_def pinch_scan_eval)

theorem first_value_of_session_not_on_change_streams_witness:
  "(1, touchEvent touchstart [touchAt 100 100]) \<in> set (singleTouchStart dragHistory 0) \<and>
   hd (singleTouchMove_scan dragHistory 1) =
     (2, singleTouchMoveOperation (touchEvent touchmove [touchAt 100 100])
           (new_TouchMove None)) \<and>
   2 \<notin> fst ` set (singleTouch dragHistory 0) \<and>
   3 \<in> fst ` set (singleTouch dragHistory 0) \<and>
   (2, singleTouchMoveOperation (touchEvent touchmove [touchAt 100 100])
         (new_TouchMove None)) \<in> set (singleTouchMoveStart dragHistory 0) \<and>
   (1, touchEvent touchstart [touchAt 0 0, touchAt 10 0]) \<in> set (pinchStart pinchHistory 0) \<and>
   fst (hd (pinch_scan pinchHistory 1)) = 2 \<and>
   2 \<notin> fst ` set (pinchChange pinchHistory 0) \<and>
   3 \<in> fst ` set (pinchChange pinchHistory 0)"
proof -
  have drag: "(1, touchEvent touchstart [touchAt 100 100]) \<in> set (singleTouchStart dragHistory 0)"
    by (simp add: dragHistory_def singleTouch_eval)
  have open_until: "\<forall>(tn, y) \<in> set (merge_obs [touchStop dragHistory,
      multipleTouchStart dragHistory] 1). 2 < tn"
    by (simp add: dragHistory_def singleTouch_eval)
  have pinch: "(1, touchEvent touchstart [touchAt 0 0, touchAt 10 0])
      \<in> set (pinchStart pinchHistory 0)"
    by (simp add: pinchHistory_def pinchChange_eval)
  note single = first_value_of_session_not_on_change_streams[where element = dragHistory
      and t = 1 and te = "touchEvent touchstart [touchAt 100 100]" and s = 0 and ?t1.0 = 2
      and m = "singleTouchMoveOperation (touchEvent touchmove [touchAt 100 100])
        (new_TouchMove None)"
      and rest = "[(3, singleTouchMoveOperation (touchEvent touchmove [touchAt 105 98])
            (singleTouchMoveOperation (touchEvent touchmove [touchAt 100 100])
               (new_TouchMove None)))]", THEN conjunct1]
  note double = first_value_of_session_not_on_change_streams[where element = pinchHistory
      and t' = 1 and te' = "touchEvent touchstart [touchAt 0 0, touchAt 10 0]" and s' = 0
      and t1' = 2
      and p = "pinchOperation (touchEvent touchmove [touchAt 0 0, touchAt 10 0]) pinchSeed"
      and rest' = "[(3, pinchOperation (touchEvent touchmove [touchAt 0 0, touchAt 10 0])
            (pinchOperation (touchEvent touchmove [touchAt 0 0, touchAt 10 0]) pinchSeed))]",
      THEN conjunct2]
  from single[THEN mp, OF conjI[OF drag singleTouchMove_scan_dragHistory]]
  have skipped: "2 \<notin> fst ` set (singleTouch dragHistory 0)"
    and "(\<forall>(tn, y) \<in> set (merge_obs [touchStop dragHistory,
            multipleTouchStart dragHistory] 1). 2 < tn) \<longrightarrow>
         (2, singleTouchMoveOperation (touchEvent touchmove [touchAt 100 100])
               (new_TouchMove None)) \<in> set (singleTouchMoveStart dragHistory 0)"
    by (rule conjunct1, rule conjunct2)
  from this(2)[THEN mp, OF open_until]
  have started: "(2, singleTouchMoveOperation (touchEvent touchmove [touchAt 100 100])
         (new_TouchMove None)) \<in> set (singleTouchMoveStart dragHistory 0)" .
  from double[THEN mp, OF conjI[OF pinch pinch_scan_pinchHistory]]
  have pair: "2 \<notin> fst ` set (pinchChange pinchHistory 0)" .
  have heads: "hd (singleTouchMove_scan dragHistory 1) =
     (2, singleTouchMoveOperation (touchEvent touchmove [touchAt 100 100])
           (new_TouchMove None))" "fst (hd (pinch_scan pinchHistory 1)) = 2"
    unfolding singleTouchMove_scan_dragHistory pinch_scan_pinchHistory by simp_all
  have emitted: "3 \<in> fst ` set (singleTouch dragHistory 0)"
    "3 \<in> fst ` set (pinchChange pinchHistory 0)"
    unfolding singleTouch_dragHistory pinchChange_pinchHistory by simp_all
  from drag pinch skipped started pair heads emitted show ?thesis
    by blast
qed

section \<open>The classes of an event\<close>

lemma time_in: "u \<in> fst ` set xs \<longleftrightarrow> (\<exists>x. (u, x) \<in> set xs)"
  by force

lemma in_touchesChanged_merge:
  "(u, te) \<in> set (merge_obs [touchStart element, touchEnd element, touchCancel element] s)
     \<longleftrightarrow> s < u \<and> 0 < u \<and> u \<le> length element \<and> te = element ! (u - 1) \<and>
         etype te \<noteq> touchmove"
  by (cases "etype (element ! (u - 1))")
     (auto simp: in_merge_obs touchStart_def touchEnd_def touchCancel_def in_fromEvent)

lemma in_singleTouchStart:
  "(u, te) \<in> set (singleTouchStart element s) \<longleftrightarrow>
     s < u \<and> 0 < u \<and> u \<le> length element \<and> te = element ! (u - 1) \<and>
     etype te \<noteq> touchmove \<and> isSingle te"
  by (auto simp: singleTouchStart_def in_filter_obs in_touchesChanged_merge)

lemma in_multipleTouchStart:
  "(u, te) \<in> set (multipleTouchStart element s) \<longleftrightarrow>
     s < u \<and> 0 < u \<and> u \<le> length element \<and> te = element ! (u - 1) \<and>
     etype te \<noteq> touchmove \<and> 1 \<le> length (touches te)"
  by (auto simp: multipleTouchStart_def in_filter_obs in_touchesChanged_merge)

lemma in_touchStop:
  "(u, te) \<in> set (touchStop element s) \<longleftrightarrow>
     s < u \<and> 0 < u \<and> u \<le> length element \<and> te = element ! (u - 1) \<and>
     (etype te = touchend \<or> etype te = touchcancel) \<and> length (touches te) = 0"
  by (auto simp: touchStop_def in_filter_obs in_merge_obs touchEnd_def touchCancel_def
      in_fromEvent)

lemma in_pinchStart:
  "(u, te) \<in> set (pinchStart element s) \<longleftrightarrow>
     s < u \<and> 0 < u \<and> u \<le> length element \<and> te = element ! (u - 1) \<and>
     etype te \<noteq> touchmove \<and> isPair te"
  by (auto simp: pinchStart_def touchesChanged_def in_filter_obs in_touchesChanged_merge)

lemma in_pinchEnd:
  "(u, te) \<in> set (pinchEnd element s) \<longleftrightarrow>
     s < u \<and> 0 < u \<and> u \<le> length element \<and> te = element ! (u - 1) \<and>
     etype te \<noteq> touchmove \<and> \<not> isPair te"
  by (auto simp: pinchEnd_def touchesChanged_def in_filter_obs in_touchesChanged_merge
      isPair_def)

text \<open>
  The folds advance at touchmove events and the sessions begin and end at other events.
  So a fold and the notifier of its \<open>takeUntil\<close>, or an inner subscription and the outer
  observable of its \<open>switchMap\<close>, never emit at the same event.
\<close>

lemma folds_and_boundaries_apart:
  assumes "(u, m) \<in> set (singleTouchMove_scan element s) \<or> (u, p) \<in> set (pinch_scan element s)"
  shows "u \<notin> fst ` set (singleTouchStart element s') \<and>
         u \<notin> fst ` set (multipleTouchStart element s') \<and>
         u \<notin> fst ` set (touchStop element s') \<and>
         u \<notin> fst ` set (pinchStart element s') \<and>
         u \<notin> fst ` set (pinchEnd element s')"
proof -
  from assms have "etype (element ! (u - 1)) = touchmove"
    using in_singleTouchMove_scan in_pinch_scan by blast
  then show ?thesis
    by (auto simp: time_in in_singleTouchStart in_multipleTouchStart in_touchStop
        in_pinchStart in_pinchEnd)
qed

text \<open>
  Against claim C7: the touchstart of one finger on its own target is a notification of
  \<open>singleTouchStart\<close> and of \<open>multipleTouchStart\<close> at once.
\<close>

theorem single_start_is_multiple_start_counterexample:
  "(1, touchEvent touchstart [touchAt 100 100]) \<in> set (singleTouchStart dragHistory 0) \<and>
   (1, touchEvent touchstart [touchAt 100 100]) \<in> set (multipleTouchStart dragHistory 0) \<and>
   isSingle (touchEvent touchstart [touchAt 100 100])"
  by (simp add: in_singleTouchStart in_multipleTouchStart dragHistory_def isSingle_def
      touchEvent_def)

text \<open>
  Claim C7, amended. No event is in two of the classes single start, pinch start and
  stop, and none is both a multiple-touch start and a stop. The multiple-touch starts are
  exactly the touchstart, touchend and touchcancel events with one touch or more: every
  single start and every pinch start is one of them.
\<close>

theorem classes_of_an_event:
  "\<not> (u \<in> fst ` set (singleTouchStart element s) \<and> u \<in> fst ` set (pinchStart element s)) \<and>
   \<not> (u \<in> fst ` set (singleTouchStart element s) \<and> u \<in> fst ` set (touchStop element s)) \<and>
   \<not> (u \<in> fst ` set (pinchStart element s) \<and> u \<in> fst ` set (touchStop element s)) \<and>
   \<not> (u \<in> fst ` set (multipleTouchStart element s) \<and> u \<in> fst ` set (touchStop element s)) \<and>
   (u \<in> fst ` set (multipleTouchStart element s) \<longleftrightarrow>
      s < u \<and> 0 < u \<and> u \<le> length element \<and> etype (element ! (u - 1)) \<noteq> touchmove \<and>
      1 \<le> length (touches (element ! (u - 1)))) \<and>
   (u \<in> fst ` set (singleTouchStart element s) \<longrightarrow>
      u \<in> fst ` set (multipleTouchStart element s)) \<and>
   (u \<in> fst ` set (pinchStart element s) \<longrightarrow>
      u \<in> fst ` set (multipleTouchStart element s))"
proof -
  have single: "u \<in> fst ` set (singleTouchStart element s) \<longleftrightarrow>
      s < u \<and> 0 < u \<and> u \<le> length element \<and> etype (element ! (u - 1)) \<noteq> touchmove \<and>
      isSingle (element ! (u - 1))"
    by (simp add: time_in in_singleTouchStart)
  have pair: "u \<in> fst ` set (pinchStart element s) \<longleftrightarrow>
      s < u \<and> 0 < u \<and> u \<le> length element \<and> etype (element ! (u - 1)) \<noteq> touchmove \<and>
      isPair (element ! (u - 1))"
    by (simp add: time_in in_pinchStart)
  have stop: "u \<in> fst ` set (touchStop element s) \<longleftrightarrow>
      s < u \<and> 0 < u \<and> u \<le> length element \<and>
      (etype (element ! (u - 1)) = touchend \<or> etype (element ! (u - 1)) = touchcancel) \<and>
      length (touches (element ! (u - 1))) = 0"
    by (simp add: time_in in_touchStop)
  have multiple: "u \<in> fst ` set (multipleTouchStart element s) \<longleftrightarrow>
      s < u \<and> 0 < u \<and> u \<le> length element \<and> etype (element ! (u - 1)) \<noteq> touchmove \<and>
      1 \<le> length (touches (element ! (u - 1)))"
    by (simp add: time_in in_multipleTouchStart)
  show ?thesis
    unfolding single pair stop multiple by (auto simp: isSingle_def isPair_def)
qed

theorem classes_of_an_event_witness:
  "1 \<in> fst ` set (singleTouchStart dragHistory 0) \<and>
   1 \<in> fst ` set (multipleTouchStart dragHistory 0) \<and>
   1 \<notin> fst ` set (pinchStart dragHistory 0) \<and>
   1 \<notin> fst ` set (touchStop dragHistory 0) \<and>
   1 \<in> fst ` set (pinchStart pinchHistory 0) \<and>
   1 \<in> fst ` set (multipleTouchStart pinchHistory 0)"
proof -
  have single: "1 \<in> fst ` set (singleTouchStart dragHistory 0)"
    by (simp add: time_in in_singleTouchStart dragHistory_def isSingle_def touchEvent_def)
  have pair: "1 \<in> fst ` set (pinchStart pinchHistory 0)"
    by (simp add: time_in in_pinchStart pinchHistory_def isPair_def touchEvent_def)
  note drag = classes_of_an_event[of 1 dragHistory 0]
  note pinch = classes_of_an_event[of 1 pinchHistory 0]
  from drag single have "1 \<in> fst ` set (multipleTouchStart dragHistory 0)"
    and "1 \<notin> fst ` set (pinchStart dragHistory 0)"
    and "1 \<notin> fst ` set (touchStop dragHistory 0)"
    by blast+
  moreover from pinch pair have "1 \<in> fst ` set (multipleTouchStart pinchHistory 0)"
    by blast
  ultimately show ?thesis
    using single pair by blast
qed

section \<open>From one finger to two\<close>

lemma sorted_merge_obs: "sorted (map fst (merge_obs sources s))"
  by (simp add: merge_obs_def)

lemma first_is_earliest:
  assumes member: "(u, x) \<in> set (merge_obs sources s)"
    and earliest: "\<forall>(v, y) \<in> set (merge_obs sources s). u \<le> v"
    and same: "\<forall>(v, y) \<in> set (merge_obs sources s). v = u \<longrightarrow> y = x"
  shows "first (merge_obs sources) s = [(u, x)]"
proof -
  obtain a rest where cons: "merge_obs sources s = a # rest"
    using member by (cases "merge_obs sources s") auto
  obtain v y where a: "a = (v, y)" by (cases a)
  from sorted_merge_obs[of sources s] cons have "\<forall>z \<in> set rest. v \<le> fst z"
    by (simp add: a)
  with member cons a have "v \<le> u"
    by auto
  moreover from earliest cons a have "u \<le> v"
    by auto
  ultimately have "v = u" by simp
  with same cons a have "y = x"
    by auto
  with \<open>v = u\<close> cons a show ?thesis
    by (simp add: first_def take_obs_def)
qed

lemma in_stop_or_multiple:
  "(u, te) \<in> set (merge_obs [touchStop element, multipleTouchStart element] s) \<Longrightarrow>
     s < u \<and> 0 < u \<and> u \<le> length element \<and> te = element ! (u - 1) \<and> etype te \<noteq> touchmove"
  by (auto simp: in_merge_obs in_touchStop in_multipleTouchStart)

text \<open>
  Against claim C6: a second finger that goes down on another target gives a touchstart
  with two touches and one target touch. It ends the single-touch session, and it is no
  pinch start.
\<close>

theorem second_finger_elsewhere_counterexample:
  "length (touches (splitTargetHistory ! 1)) = 2 \<and>
   etype (splitTargetHistory ! 1) = touchstart \<and>
   (1, splitTargetHistory ! 0) \<in> set (singleTouchStart splitTargetHistory 0) \<and>
   singleTouchMoveEnd splitTargetHistory 0 = [(2, splitTargetHistory ! 1)] \<and>
   pinchStart splitTargetHistory 0 = []"
  by (simp add: splitTargetHistory_def singleTouchMoveEnd_def mergeMap_def first_def
      take_obs_def singleTouchStart_def multipleTouchStart_def touchStop_def pinchStart_def
      touchesChanged_def merge_obs_def filter_obs_def touchStart_def touchEnd_def
      touchCancel_def fromEvent_def isSingle_def isPair_def touchEvent_def)

text \<open>
  Claim C6, amended. Let a touchstart, touchend or touchcancel event with one touch and
  one target touch be followed by touchmove events only, and then by a touchstart,
  touchend or touchcancel event with two touches and two target touches. Then this last
  event is emitted by the single-touch end stream and by the pinch start stream.
\<close>

theorem one_finger_to_two:
  assumes "s \<le> i" and "i < j" and "j < length element"
    and "etype (element ! i) \<noteq> touchmove" and "isSingle (element ! i)"
    and "\<forall>k. i < k \<and> k < j \<longrightarrow> etype (element ! k) = touchmove"
    and "etype (element ! j) \<noteq> touchmove" and "isPair (element ! j)"
  shows "(Suc j, element ! j) \<in> set (singleTouchMoveEnd element s) \<and>
         (Suc j, element ! j) \<in> set (pinchStart element s)"
proof -
  let ?closing = "merge_obs [touchStop element, multipleTouchStart element]"
  from assms have opened: "(Suc i, element ! i) \<in> set (singleTouchStart element s)"
    by (simp add: in_singleTouchStart)
  from assms have "1 \<le> length (touches (element ! j))"
    by (simp add: isPair_def)
  with assms have "(Suc j, element ! j) \<in> set (multipleTouchStart element (Suc i))"
    by (simp add: in_multipleTouchStart)
  then have member: "(Suc j, element ! j) \<in> set (?closing (Suc i))"
    by (auto simp: in_merge_obs)
  have earliest: "\<forall>(v, y) \<in> set (?closing (Suc i)). Suc j \<le> v"
  proof (clarify, rule ccontr)
    fix v y
    assume "(v, y) \<in> set (?closing (Suc i))" and "\<not> Suc j \<le> v"
    from in_stop_or_multiple[OF this(1)]
    have "Suc i < v" and "etype (element ! (v - 1)) \<noteq> touchmove"
      by auto
    moreover from \<open>Suc i < v\<close> \<open>\<not> Suc j \<le> v\<close> have "i < v - 1 \<and> v - 1 < j"
      by auto
    ultimately show False
      using assms(6) by blast
  qed
  have same: "\<forall>(v, y) \<in> set (?closing (Suc i)). v = Suc j \<longrightarrow> y = element ! j"
    using in_stop_or_multiple by fastforce
  from first_is_earliest[OF member earliest same] opened
  have "(Suc j, element ! j) \<in> set (singleTouchMoveEnd element s)"
    unfolding singleTouchMoveEnd_def in_mergeMap by force
  moreover from assms have "(Suc j, element ! j) \<in> set (pinchStart element s)"
    by (simp add: in_pinchStart)
  ultimately show ?thesis by simp
qed

theorem one_finger_to_two_witness:
  "singleTouchMoveEnd secondFingerHistory 0 =
     [(3, touchEvent touchstart [touchAt 1 1, touchAt 10 0])] \<and>
   pinchStart secondFingerHistory 0 =
     [(3, touchEvent touchstart [touchAt 1 1, touchAt 10 0])] \<and>
   (Suc 2, secondFingerHistory ! 2) \<in> set (singleTouchMoveEnd secondFingerHistory 0) \<and>
   (Suc 2, secondFingerHistory ! 2) \<in> set (pinchStart secondFingerHistory 0)"
proof -
  have bounds: "(0::nat) \<le> 0" "(0::nat) < 2" "2 < length secondFingerHistory"
    by (simp_all add: secondFingerHistory_def)
  have one: "etype (secondFingerHistory ! 0) \<noteq> touchmove"
    "isSingle (secondFingerHistory ! 0)"
    by (simp_all add: secondFingerHistory_def touchEvent_def isSingle_def)
  have two: "etype (secondFingerHistory ! 2) \<noteq> touchmove"
    "isPair (secondFingerHistory ! 2)"
    by (simp_all add: secondFingerHistory_def touchEvent_def isPair_def)
  have moves: "\<forall>k. 0 < k \<and> k < 2 \<longrightarrow> etype (secondFingerHistory ! k) = touchmove"
  proof (intro allI impI)
    fix k :: nat
    assume "0 < k \<and> k < 2"
    then have "k = 1" by simp
    then show "etype (secondFingerHistory ! k) = touchmove"
      by (simp add: secondFingerHistory_def touchEvent_def)
  qed
  from one_finger_to_two[OF bounds one moves two]
  have "(Suc 2, secondFingerHistory ! 2) \<in> set (singleTouchMoveEnd secondFingerHistory 0)
      \<and> (Suc 2, secondFingerHistory ! 2) \<in> set (pinchStart secondFingerHistory 0)" .
  moreover have "singleTouchMoveEnd secondFingerHistory 0 =
     [(3, touchEvent touchstart [touchAt 1 1, touchAt 10 0])]"
    "pinchStart secondFingerHistory 0 =
     [(3, touchEvent touchstart [touchAt 1 1, touchAt 10 0])]"
    by (simp_all add: secondFingerHistory_def singleTouchMoveEnd_def mergeMap_def first_def
      take_obs_def singleTouchStart_def multipleTouchStart_def touchStop_def pinchStart_def
      touchesChanged_def merge_obs_def filter_obs_def touchStart_def touchEnd_def
      touchCancel_def fromEvent_def isSingle_def isPair_def touchEvent_def)
  ultimately show ?thesis
    by blast
qed

section \<open>Zoom of a wheel event\<close>

text \<open>
  Claim C8. The wheel delta is multiplied by 40 in line mode and by 800 in page mode and
  left as it is in pixel mode. For every wheel event that reaches the observer, on an
  element whose height is not 0, the zoom passed to the state service is -3 times the
  normalized delta divided by the height of the element.
\<close>

theorem wheel_zoom:
  "(deltaMode event = DOM_DELTA_LINE \<longrightarrow> normalizedDeltaY event = 40 * deltaY event) \<and>
   (deltaMode event = DOM_DELTA_PAGE \<longrightarrow> normalizedDeltaY event = 800 * deltaY event) \<and>
   (deltaMode event = DOM_DELTA_PIXEL \<longrightarrow> normalizedDeltaY event = deltaY event) \<and>
   (scrollZoom canvasPosition unprojectFromCanvas projectBasic event state perspective
       transform element = Some (zoom, reference) \<and> offsetHeight element \<noteq> 0 \<longrightarrow>
      zoom = Num (- 3 * normalizedDeltaY event / real_of_int (offsetHeight element)))"
  by (auto simp: normalizedDeltaY_def DOM_DELTA_LINE_def DOM_DELTA_PAGE_def
      DOM_DELTA_PIXEL_def scrollZoom_def zoomIn_arguments_def js_divide_def Let_def
      split: if_splits prod.splits)

theorem wheel_zoom_witness:
  "deltaMode threeLines = DOM_DELTA_LINE \<and> normalizedDeltaY threeLines = 120 \<and>
   offsetHeight canvas600 \<noteq> 0 \<and>
   scrollZoom (\<lambda>event element. (0, 0)) (\<lambda>x y w h perspective. ()) (\<lambda>transform v. [])
     threeLines \<lparr>fullPano = True, nodesAhead = 0\<rparr> () () canvas600 = Some (Num (- 0.6), [])"
proof -
  have mode: "deltaMode threeLines = DOM_DELTA_LINE"
    by (simp add: threeLines_def)
  from wheel_zoom[of threeLines, THEN conjunct1, THEN mp, OF mode]
  have normalized: "normalizedDeltaY threeLines = 120"
    by (simp add: threeLines_def)
  have height: "offsetHeight canvas600 \<noteq> 0"
    by (simp add: canvas600_def)
  obtain zoom reference where call:
    "scrollZoom (\<lambda>event element. (0, 0)) (\<lambda>x y w h perspective. ()) (\<lambda>transform v. [])
       threeLines \<lparr>fullPano = True, nodesAhead = 0\<rparr> () () canvas600 = Some (zoom, reference)"
    by (cases "zoomIn_arguments (\<lambda>event element. (0, 0)) (\<lambda>x y w h perspective. ())
          (\<lambda>transform v. []) threeLines () () canvas600") (simp add: scrollZoom_def)
  then have "reference = []"
    by (simp add: scrollZoom_def zoomIn_arguments_def)
  moreover from wheel_zoom[of threeLines "\<lambda>event element. (0, 0)"
      "\<lambda>x y w h perspective. ()" "\<lambda>transform v. []" "\<lparr>fullPano = True, nodesAhead = 0\<rparr>"
      "()" "()" canvas600 zoom reference, THEN conjunct2, THEN conjunct2, THEN conjunct2,
      THEN mp, OF conjI[OF call height]]
  have "zoom = Num (- 0.6)"
    by (simp add: normalized canvas600_def)
  ultimately show ?thesis
    using mode normalized height call by simp
qed

section \<open>Notifications of the activation flag\<close>













end
